theory Spec2Isabelle
  imports Main "HOL-Library.AList"
begin

section \<open>Python values, objects and exceptions\<close>

text \<open>
  The module \<^verbatim>\<open>wandb/sdk/launch/__init__.py\<close> is glue code: it assigns into
  dictionaries it was handed, calls collaborators and reacts to what they return or
  raise. Dictionaries are objects in a store, addressed by reference, because the code
  assigns into the caller's own objects. A dictionary is an association list in insertion
  order; item assignment is \<open>AList.update\<close>, which overwrites in place or appends.
\<close>

type_synonym addr = nat

datatype pyval = PNone | PBool bool | PStr string | PRef addr

type_synonym pydict = "(string \<times> pyval) list"

type_synonym heap = "addr \<Rightarrow> pydict"

text \<open>
  Exceptions. \<open>CollaboratorError\<close> stands for any other exception derived from
  \<^verbatim>\<open>Exception\<close> that a collaborator raises (a resolution, dispatch or queue error).
  \<^verbatim>\<open>KeyboardInterrupt\<close> and \<^verbatim>\<open>SystemExit\<close> derive from \<^verbatim>\<open>BaseException\<close> only.
\<close>

datatype exn =
    ExecutionException string
  | KeyboardInterrupt
  | SystemExit int
  | TypeError
  | AttributeError
  | ValueError
  | CollaboratorError string

fun is_Exception :: "exn \<Rightarrow> bool" where
  "is_Exception KeyboardInterrupt = False"
| "is_Exception (SystemExit _) = False"
| "is_Exception _ = True"

section \<open>Collaborators\<close>

text \<open>
  A Submitted Run, as this module uses it: \<^verbatim>\<open>wait()\<close> returns a boolean or raises
  (an interrupt delivered while it blocks is the outcome \<open>Inl KeyboardInterrupt\<close>).

  Modelled from the spec: \<^verbatim>\<open>SubmittedRun.cancel\<close> is not part of this module; it is a
  best-effort request for termination that returns normally, and is recorded as an event.
\<close>

record submitted_run =
  run_id :: nat
  wait_result :: "exn + bool"

record project =
  project_uri :: string
  docker_env :: pydict

record backend =
  backend_run :: "project \<Rightarrow> pyval \<Rightarrow> heap \<Rightarrow> exn + submitted_run"

record api =
  settings :: "string \<Rightarrow> pyval"
  push_to_run_queue :: "pyval \<Rightarrow> pyval \<Rightarrow> exn + pyval"

text \<open>
  What the module imports from \<^verbatim>\<open>.utils\<close>, \<^verbatim>\<open>.runner.loader\<close> and \<^verbatim>\<open>.agent\<close>, taken as
  parameters: the three reserved key constants, the project resolver, the local-address
  test, the backend loader with the keys of its table \<^verbatim>\<open>WANDB_RUNNERS\<close>, and the
  outcome of \<^verbatim>\<open>LaunchAgent(entity, project, queues).loop()\<close>.
\<close>

record env =
  PROJECT_SYNCHRONOUS :: string
  PROJECT_DOCKER_ARGS :: string
  PROJECT_STORAGE_DIR :: string
  fetch_and_validate_project ::
    "string \<Rightarrow> pyval \<Rightarrow> api option \<Rightarrow> string \<Rightarrow> pyval \<Rightarrow> pyval \<Rightarrow> pyval \<Rightarrow> exn + project"
  is_wandb_local_uri :: "string \<Rightarrow> bool"
  load_backend :: "string \<Rightarrow> api option \<Rightarrow> backend option"
  WANDB_RUNNERS :: "string list"
  agent_loop :: "string \<Rightarrow> string \<Rightarrow> string list option \<Rightarrow> exn + unit"

section \<open>State: the store and the trace of observable events\<close>

datatype event =
    Print_exception exn
  | Termerror string
  | Logger_info string
  | Logger_error string
  | Wait_called nat
  | Cancel_called nat
  | LaunchAgent_init string string "string list option"
  | Agent_loop
  | Load_backend string
  | Backend_run project pyval heap

record state =
  store :: heap
  trace :: "event list"

definition emit :: "event \<Rightarrow> state \<Rightarrow> state" where
  "emit e s = s\<lparr>trace := trace s @ [e]\<rparr>"

text \<open>\<^verbatim>\<open>obj[k] = v\<close>: only a dictionary supports item assignment.\<close>

definition setitem :: "pyval \<Rightarrow> string \<Rightarrow> pyval \<Rightarrow> state \<Rightarrow> (exn + unit) \<times> state" where
  "setitem obj k v s =
     (case obj of
        PRef a \<Rightarrow> (Inr (), s\<lparr>store := (store s)(a := AList.update k v (store s a))\<rparr>)
      | _ \<Rightarrow> (Inl TypeError, s))"

text \<open>Truth value of \<^verbatim>\<open>if v:\<close>.\<close>

definition truthy :: "heap \<Rightarrow> pyval \<Rightarrow> bool" where
  "truthy h v =
     (case v of PNone \<Rightarrow> False | PBool b \<Rightarrow> b | PStr t \<Rightarrow> t \<noteq> [] | PRef a \<Rightarrow> h a \<noteq> [])"

text \<open>\<^verbatim>\<open>s.split(c)\<close> for a one-character separator, and \<^verbatim>\<open>sep.join(xs)\<close>.\<close>

fun split :: "char \<Rightarrow> string \<Rightarrow> string list" where
  "split c [] = [[]]"
| "split c (x # xs) =
     (if x = c then [] # split c xs
      else (case split c xs of [] \<Rightarrow> [[x]] | w # ws \<Rightarrow> (x # w) # ws))"

fun join :: "string \<Rightarrow> string list \<Rightarrow> string" where
  "join sep [] = []"
| "join sep [x] = x"
| "join sep (x # y # ys) = x @ sep @ join sep (y # ys)"

section \<open>The module\<close>

subsection \<open>\<^verbatim>\<open>push_to_queue\<close>\<close>

text \<open>\<^verbatim>\<open>api.push_to_run_queue\<close> on \<^verbatim>\<open>None\<close> is an AttributeError, raised inside the \<^verbatim>\<open>try\<close>.\<close>

definition push_to_queue :: "api option \<Rightarrow> pyval \<Rightarrow> pyval \<Rightarrow> state \<Rightarrow> (exn + pyval) \<times> state" where
  "push_to_queue api queue run_spec s =
     (case (case api of None \<Rightarrow> Inl AttributeError
                      | Some a \<Rightarrow> push_to_run_queue a queue run_spec) of
        Inl e \<Rightarrow>
          if is_Exception e then (Inr PNone, emit (Print_exception e) s)
          else (Inl e, s)
      | Inr res \<Rightarrow> (Inr res, s))"

subsection \<open>\<^verbatim>\<open>run_agent\<close>\<close>

definition agent_spec_message :: string where
  "agent_spec_message = ''Specify agent spec in the form: 'entity/project'' @ [CHR 0x27]"

definition run_agent :: "env \<Rightarrow> string list \<Rightarrow> string list option \<Rightarrow> state \<Rightarrow> (exn + unit) \<times> state" where
  "run_agent E spec queues s =
     (if spec = [] \<or> length spec \<noteq> 1 \<or> length (split CHR ''/'' (spec ! 0)) \<noteq> 2 then
        (Inl (SystemExit 1), emit (Termerror agent_spec_message) s)
      else
        (case split CHR ''/'' (spec ! 0) of
           [entity, project] \<Rightarrow>
             (agent_loop E entity project queues,
              emit Agent_loop (emit (LaunchAgent_init entity project queues) s))
         | _ \<Rightarrow> (Inl ValueError, s)))"

subsection \<open>\<^verbatim>\<open>_wait_for\<close>\<close>

definition wait_for :: "submitted_run \<Rightarrow> state \<Rightarrow> (exn + unit) \<times> state" where
  "wait_for submitted_run_obj s =
     (let s1 = emit (Wait_called (run_id submitted_run_obj)) s in
      case wait_result submitted_run_obj of
        Inr True \<Rightarrow> (Inr (), emit (Logger_info ''=== Submitted run succeeded ==='') s1)
      | Inr False \<Rightarrow> (Inl (ExecutionException ''Submitted run failed''), s1)
      | Inl e \<Rightarrow>
          if e = KeyboardInterrupt then
            (Inl e,
             emit (Cancel_called (run_id submitted_run_obj))
               (emit (Logger_error ''=== Submitted run interrupted, cancelling run ==='') s1))
          else (Inl e, s1))"

subsection \<open>\<^verbatim>\<open>_run\<close>\<close>

text \<open>\<^verbatim>\<open>if v is None: v = api.settings(key)\<close>; \<^verbatim>\<open>api\<close> itself defaults to \<^verbatim>\<open>None\<close>.\<close>

definition setting_default :: "pyval \<Rightarrow> api option \<Rightarrow> string \<Rightarrow> exn + pyval" where
  "setting_default v api key =
     (if v = PNone then
        (case api of None \<Rightarrow> Inl AttributeError | Some a \<Rightarrow> Inr (settings a key))
      else Inr v)"

definition unavailable_backend_message :: "string \<Rightarrow> string list \<Rightarrow> string" where
  "unavailable_backend_message runner_name names =
     ''Unavailable backend '' @ runner_name @ '', available backends: '' @ join '', '' names"

definition launch_run ::
  "env \<Rightarrow> string \<Rightarrow> pyval \<Rightarrow> pyval \<Rightarrow> pyval \<Rightarrow> pyval \<Rightarrow> pyval \<Rightarrow> pyval \<Rightarrow> pyval \<Rightarrow> pyval \<Rightarrow>
   string \<Rightarrow> pyval \<Rightarrow> pyval \<Rightarrow> bool \<Rightarrow> api option \<Rightarrow> state \<Rightarrow> (exn + submitted_run) \<times> state" where
  "launch_run E uri experiment_name wandb_project wandb_entity docker_image entry_point version
     parameters docker_args runner_name runner_config storage_dir synchronous api s =
     (case fetch_and_validate_project E uri experiment_name api runner_name version entry_point
             parameters of
        Inl e \<Rightarrow> (Inl e, s)
      | Inr project \<Rightarrow>
     (case setting_default wandb_project api ''project'' of
        Inl e \<Rightarrow> (Inl e, s)
      | Inr wandb_project' \<Rightarrow>
     (case setting_default wandb_entity api ''entity'' of
        Inl e \<Rightarrow> (Inl e, s)
      | Inr wandb_entity' \<Rightarrow>
     (let project' = project\<lparr>docker_env :=
            AList.update ''WANDB_ENTITY'' wandb_entity'
              (AList.update ''WANDB_PROJECT'' wandb_project' (docker_env project))\<rparr>
      in
     (case setitem runner_config (PROJECT_SYNCHRONOUS E) (PBool synchronous) s of
        (Inl e, s1) \<Rightarrow> (Inl e, s1)
      | (Inr _, s1) \<Rightarrow>
     (case setitem runner_config (PROJECT_DOCKER_ARGS E) docker_args s1 of
        (Inl e, s2) \<Rightarrow> (Inl e, s2)
      | (Inr _, s2) \<Rightarrow>
     (case setitem runner_config (PROJECT_STORAGE_DIR E) storage_dir s2 of
        (Inl e, s3) \<Rightarrow> (Inl e, s3)
      | (Inr _, s3) \<Rightarrow>
     (case (if truthy (store s3) docker_image
            then setitem runner_config ''DOCKER_IMAGE'' docker_image s3
            else (Inr (), s3)) of
        (Inl e, s4) \<Rightarrow> (Inl e, s4)
      | (Inr _, s4) \<Rightarrow>
     (let s5 = emit (Load_backend runner_name) s4 in
      case load_backend E runner_name api of
        Some backend \<Rightarrow>
          (backend_run backend project' runner_config (store s5),
           emit (Backend_run project' runner_config (store s5)) s5)
      | None \<Rightarrow>
          (Inl (ExecutionException
                  (unavailable_backend_message runner_name (WANDB_RUNNERS E))), s5))))))))))"

subsection \<open>\<^verbatim>\<open>run\<close>\<close>

text \<open>The pre-step of lines 159--160: \<^verbatim>\<open>if _is_wandb_local_uri(uri): docker_args["network"] = "host"\<close>.\<close>

definition host_network :: "env \<Rightarrow> string \<Rightarrow> pyval \<Rightarrow> state \<Rightarrow> (exn + unit) \<times> state" where
  "host_network E uri docker_args s =
     (if is_wandb_local_uri E uri
      then setitem docker_args ''network'' (PStr ''host'') s
      else (Inr (), s))"

definition run ::
  "env \<Rightarrow> string \<Rightarrow> pyval \<Rightarrow> pyval \<Rightarrow> pyval \<Rightarrow> pyval \<Rightarrow> pyval \<Rightarrow> string \<Rightarrow> pyval \<Rightarrow> pyval \<Rightarrow>
   pyval \<Rightarrow> pyval \<Rightarrow> pyval \<Rightarrow> bool \<Rightarrow> api option \<Rightarrow> state \<Rightarrow> (exn + submitted_run) \<times> state" where
  "run E uri entry_point version parameters docker_args experiment_name resource wandb_project
     wandb_entity docker_image config storage_dir synchronous api s =
     (case host_network E uri docker_args s of
        (Inl e, s1) \<Rightarrow> (Inl e, s1)
      | (Inr _, s1) \<Rightarrow>
     (case launch_run E uri experiment_name wandb_project wandb_entity docker_image entry_point
             version parameters docker_args resource config storage_dir synchronous api s1 of
        (Inl e, s2) \<Rightarrow> (Inl e, s2)
      | (Inr submitted_run_obj, s2) \<Rightarrow>
          if synchronous then
            (case wait_for submitted_run_obj s2 of
               (Inl e, s3) \<Rightarrow> (Inl e, s3)
             | (Inr _, s3) \<Rightarrow> (Inr submitted_run_obj, s3))
          else (Inr submitted_run_obj, s2)))"

section \<open>Example collaborators\<close>

text \<open>
  Concrete collaborators at which the theorems below are instantiated: a store with a
  configuration dictionary at address 0 that already holds a value at a reserved key, a
  backend table with the single runner \<open>local\<close> whose runs end as the parameter \<open>w\<close>
  says, a resolver that fails for the source \<open>missing\<close>, and a queue client that is down
  for one queue and interrupted at another.
\<close>

definition demo_store :: heap where
  "demo_store a =
     (if a = 0 then [(''SYNCHRONOUS'', PBool False), (''epochs'', PStr ''3'')] else [])"

definition demo_state :: state where
  "demo_state = \<lparr>store = demo_store, trace = []\<rparr>"

definition demo_run :: "exn + bool \<Rightarrow> submitted_run" where
  "demo_run w = \<lparr>run_id = 1, wait_result = w\<rparr>"

definition demo_settings :: "string \<Rightarrow> pyval" where
  "demo_settings key = PStr (''default-'' @ key)"

definition demo_push :: "pyval \<Rightarrow> pyval \<Rightarrow> exn + pyval" where
  "demo_push queue run_spec =
     (if queue = PStr ''down'' then Inl (CollaboratorError ''queue unavailable'')
      else if queue = PStr ''interrupted'' then Inl KeyboardInterrupt
      else Inr run_spec)"

definition demo_api :: api where
  "demo_api = \<lparr>settings = demo_settings, push_to_run_queue = demo_push\<rparr>"

definition demo_agent_loop :: "string \<Rightarrow> string \<Rightarrow> string list option \<Rightarrow> exn + unit" where
  "demo_agent_loop entity project queues = Inl KeyboardInterrupt"

definition demo_backend_run :: "exn + bool \<Rightarrow> project \<Rightarrow> pyval \<Rightarrow> heap \<Rightarrow> exn + submitted_run" where
  "demo_backend_run w p c h = Inr (demo_run w)"

definition demo_backend :: "exn + bool \<Rightarrow> backend" where
  "demo_backend w = \<lparr>backend_run = demo_backend_run w\<rparr>"

definition demo_load_backend :: "exn + bool \<Rightarrow> string \<Rightarrow> api option \<Rightarrow> backend option" where
  "demo_load_backend w name api = (if name = ''local'' then Some (demo_backend w) else None)"

definition demo_fetch ::
  "string \<Rightarrow> pyval \<Rightarrow> api option \<Rightarrow> string \<Rightarrow> pyval \<Rightarrow> pyval \<Rightarrow> pyval \<Rightarrow> exn + project" where
  "demo_fetch uri experiment_name api runner_name version entry_point parameters =
     (if uri = ''missing'' then Inl (CollaboratorError ''project not found'')
      else Inr \<lparr>project_uri = uri, docker_env = []\<rparr>)"

definition demo_is_local :: "string \<Rightarrow> bool" where
  "demo_is_local uri = (uri = ''http://localhost:8080/team/proj'')"

definition demo_env :: "exn + bool \<Rightarrow> env" where
  "demo_env w =
     \<lparr>PROJECT_SYNCHRONOUS = ''SYNCHRONOUS'',
      PROJECT_DOCKER_ARGS = ''DOCKER_ARGS'',
      PROJECT_STORAGE_DIR = ''STORAGE_DIR'',
      fetch_and_validate_project = demo_fetch,
      is_wandb_local_uri = demo_is_local,
      load_backend = demo_load_backend w,
      WANDB_RUNNERS = [''local''],
      agent_loop = demo_agent_loop\<rparr>"

section \<open>The wait/cancel sequence\<close>

text \<open>
  C1. When \<^verbatim>\<open>wait()\<close> is interrupted by KeyboardInterrupt, \<^verbatim>\<open>_wait_for\<close> logs the
  interruption, then calls \<^verbatim>\<open>cancel()\<close> on that run, exactly once, and then re-raises
  the same KeyboardInterrupt: the events it adds are the wait, the error report and one
  cancel, in this order, and the result is the interrupt.
\<close>

theorem wait_for_interrupted:
  assumes "wait_result r = Inl KeyboardInterrupt"
  shows "wait_for r s =
           (Inl KeyboardInterrupt,
            s\<lparr>trace := trace s @
                 [Wait_called (run_id r),
                  Logger_error ''=== Submitted run interrupted, cancelling run ==='',
                  Cancel_called (run_id r)]\<rparr>)
         \<and> count_list (trace (snd (wait_for r s))) (Cancel_called (run_id r))
             = count_list (trace s) (Cancel_called (run_id r)) + 1"
  using assms by (simp add: wait_for_def emit_def)

theorem wait_for_interrupted_witness:
  "wait_result (demo_run (Inl KeyboardInterrupt)) = Inl KeyboardInterrupt
   \<and> wait_for (demo_run (Inl KeyboardInterrupt)) demo_state =
       (Inl KeyboardInterrupt,
        demo_state\<lparr>trace :=
          [Wait_called 1,
           Logger_error ''=== Submitted run interrupted, cancelling run ==='',
           Cancel_called 1]\<rparr>)"
  using wait_for_interrupted [of "demo_run (Inl KeyboardInterrupt)" demo_state]
  by (simp add: demo_run_def demo_state_def)

text \<open>
  C4, as stated, gives the message of the execution error as \<open>submitted run failed\<close>.
  The message the code raises starts with a capital letter.
\<close>

theorem wait_for_message_counterexample:
  "wait_result (demo_run (Inr False)) = Inr False
   \<and> fst (wait_for (demo_run (Inr False)) demo_state)
        \<noteq> Inl (ExecutionException ''submitted run failed'')"
  by (simp add: wait_for_def demo_run_def)

text \<open>
  C4, amended. If \<^verbatim>\<open>wait()\<close> returns true, \<^verbatim>\<open>_wait_for\<close> logs the success and returns
  normally; if it returns false, \<^verbatim>\<open>_wait_for\<close> raises an ExecutionException with the
  message \<open>Submitted run failed\<close>, and nothing is logged or cancelled.
\<close>

theorem wait_for_returned:
  "(wait_result r = Inr True \<longrightarrow>
      wait_for r s =
        (Inr (), s\<lparr>trace := trace s @ [Wait_called (run_id r),
                                         Logger_info ''=== Submitted run succeeded ==='']\<rparr>))
   \<and> (wait_result r = Inr False \<longrightarrow>
      wait_for r s =
        (Inl (ExecutionException ''Submitted run failed''),
         s\<lparr>trace := trace s @ [Wait_called (run_id r)]\<rparr>))"
  by (simp add: wait_for_def emit_def)

theorem wait_for_returned_witness:
  "wait_for (demo_run (Inr True)) demo_state =
     (Inr (), demo_state\<lparr>trace := [Wait_called 1,
                                    Logger_info ''=== Submitted run succeeded ==='']\<rparr>)
   \<and> wait_for (demo_run (Inr False)) demo_state =
     (Inl (ExecutionException ''Submitted run failed''),
      demo_state\<lparr>trace := [Wait_called 1]\<rparr>)"
  using wait_for_returned [of "demo_run (Inr True)" demo_state]
        wait_for_returned [of "demo_run (Inr False)" demo_state]
  by (simp add: demo_run_def demo_state_def)

section \<open>The queue pusher\<close>

text \<open>
  C9, as stated, has \<^verbatim>\<open>push_to_queue\<close> catch any exception of the push. The handler is
  \<^verbatim>\<open>except Exception\<close>: a KeyboardInterrupt raised during the push is not caught.
\<close>

theorem push_to_queue_interrupt_counterexample:
  "push_to_run_queue demo_api (PStr ''interrupted'') (PStr ''job'') = Inl KeyboardInterrupt
   \<and> fst (push_to_queue (Some demo_api) (PStr ''interrupted'') (PStr ''job'') demo_state)
        = Inl KeyboardInterrupt
   \<and> fst (push_to_queue (Some demo_api) (PStr ''interrupted'') (PStr ''job'') demo_state)
        \<noteq> Inr PNone"
  by (simp add: push_to_queue_def demo_api_def demo_push_def)

text \<open>
  C9, amended. If the push raises an exception derived from \<^verbatim>\<open>Exception\<close>,
  \<^verbatim>\<open>push_to_queue\<close> prints it and returns None; an exception that is not derived from
  \<^verbatim>\<open>Exception\<close> (KeyboardInterrupt, SystemExit) propagates unchanged, with nothing
  printed; if the push succeeds, its result is returned unchanged. (With \<^verbatim>\<open>api\<close> at
  \<^verbatim>\<open>None\<close> the attribute lookup raises inside the \<^verbatim>\<open>try\<close> and is caught like any other.)
\<close>

theorem push_to_queue_result:
  "(push_to_run_queue a queue run_spec = Inl e \<and> is_Exception e \<longrightarrow>
      push_to_queue (Some a) queue run_spec s =
        (Inr PNone, s\<lparr>trace := trace s @ [Print_exception e]\<rparr>))
   \<and> (push_to_run_queue a queue run_spec = Inl e \<and> \<not> is_Exception e \<longrightarrow>
      push_to_queue (Some a) queue run_spec s = (Inl e, s))
   \<and> (push_to_run_queue a queue run_spec = Inr res \<longrightarrow>
      push_to_queue (Some a) queue run_spec s = (Inr res, s))
   \<and> push_to_queue None queue run_spec s =
        (Inr PNone, s\<lparr>trace := trace s @ [Print_exception AttributeError]\<rparr>)"
  by (simp add: push_to_queue_def emit_def)

theorem push_to_queue_result_witness:
  "push_to_queue (Some demo_api) (PStr ''down'') (PStr ''job'') demo_state
      = (Inr PNone,
         demo_state\<lparr>trace := [Print_exception (CollaboratorError ''queue unavailable'')]\<rparr>)
   \<and> push_to_queue (Some demo_api) (PStr ''interrupted'') (PStr ''job'') demo_state
      = (Inl KeyboardInterrupt, demo_state)
   \<and> push_to_queue (Some demo_api) (PStr ''default'') (PStr ''job'') demo_state
      = (Inr (PStr ''job''), demo_state)"
  using push_to_queue_result [of demo_api "PStr ''down''" "PStr ''job''"
          "CollaboratorError ''queue unavailable''" demo_state]
        push_to_queue_result [of demo_api "PStr ''interrupted''" "PStr ''job''"
          KeyboardInterrupt demo_state]
        push_to_queue_result [of demo_api "PStr ''default''" "PStr ''job''" _ demo_state
          "PStr ''job''"]
  by (simp add: demo_api_def demo_push_def demo_state_def)

section \<open>The agent specifier\<close>

lemma split_not_Nil: "split c xs \<noteq> []"
  by (induction xs) (auto split: list.splits)

lemma length_split: "length (split c xs) = Suc (count_list xs c)"
  by (induction xs) (auto split: list.splits simp: split_not_Nil)

lemma split_no_sep: "c \<notin> set xs \<Longrightarrow> split c xs = [xs]"
  by (induction xs) auto

lemma split_pair: "c \<notin> set e \<Longrightarrow> c \<notin> set p \<Longrightarrow> split c (e @ c # p) = [e, p]"
  by (induction e) (auto simp: split_no_sep)

text \<open>A string with exactly one separator is a part, the separator and a part.\<close>

lemma one_sep_decompose:
  "count_list xs c = 1 \<Longrightarrow> \<exists>e p. xs = e @ c # p \<and> c \<notin> set e \<and> c \<notin> set p"
proof (induction xs)
  case Nil
  then show ?case by simp
next
  case (Cons x xs)
  show ?case
  proof (cases "x = c")
    case True
    with Cons.prems have "count_list xs c = 0" by simp
    then have "c \<notin> set xs" by (simp add: count_list_0_iff)
    with True have "x # xs = [] @ c # xs \<and> c \<notin> set [] \<and> c \<notin> set xs" by simp
    then show ?thesis by blast
  next
    case False
    with Cons.prems have "count_list xs c = 1" by simp
    from Cons.IH [OF this] obtain e p
      where "xs = e @ c # p" "c \<notin> set e" "c \<notin> set p" by blast
    with False have "x # xs = (x # e) @ c # p \<and> c \<notin> set (x # e) \<and> c \<notin> set p"
      by auto
    then show ?thesis by blast
  qed
qed

text \<open>
  C7. If the specifier list is empty, has more than one entry, or its single entry does
  not have exactly one slash, \<^verbatim>\<open>run_agent\<close> reports the error and exits with status 1
  (SystemExit 1), and no agent is constructed and no loop entered: the only event is the
  error report. If the single entry is \<open>entity/project\<close>, with no slash in either part,
  the agent is constructed with that entity, that project and the queues, and its loop is
  entered; every single entry with exactly one slash is of that form.
\<close>

theorem run_agent_spec:
  "(spec = [] \<or> length spec \<noteq> 1 \<or> count_list (spec ! 0) CHR ''/'' \<noteq> 1 \<longrightarrow>
      run_agent E spec queues s =
        (Inl (SystemExit 1), s\<lparr>trace := trace s @ [Termerror agent_spec_message]\<rparr>))
   \<and> (CHR ''/'' \<notin> set entity \<and> CHR ''/'' \<notin> set project \<longrightarrow>
      run_agent E [entity @ ''/'' @ project] queues s =
        (agent_loop E entity project queues,
         s\<lparr>trace := trace s @ [LaunchAgent_init entity project queues, Agent_loop]\<rparr>))
   \<and> (count_list x CHR ''/'' = 1 \<longrightarrow>
      (\<exists>e p. x = e @ ''/'' @ p \<and> CHR ''/'' \<notin> set e \<and> CHR ''/'' \<notin> set p))"
  using one_sep_decompose [of x "CHR ''/''"]
  by (auto simp: run_agent_def length_split split_pair emit_def)

theorem run_agent_spec_witness:
  "run_agent (demo_env (Inr True)) [] None demo_state =
     (Inl (SystemExit 1), demo_state\<lparr>trace := [Termerror agent_spec_message]\<rparr>)
   \<and> run_agent (demo_env (Inr True)) [''bad-spec''] None demo_state =
     (Inl (SystemExit 1), demo_state\<lparr>trace := [Termerror agent_spec_message]\<rparr>)
   \<and> run_agent (demo_env (Inr True)) [''a/b/c''] None demo_state =
     (Inl (SystemExit 1), demo_state\<lparr>trace := [Termerror agent_spec_message]\<rparr>)
   \<and> run_agent (demo_env (Inr True)) [''team'', ''team/proj''] None demo_state =
     (Inl (SystemExit 1), demo_state\<lparr>trace := [Termerror agent_spec_message]\<rparr>)
   \<and> run_agent (demo_env (Inr True)) [''team/proj''] (Some [''default'']) demo_state =
     (Inl KeyboardInterrupt,
      demo_state\<lparr>trace := [LaunchAgent_init ''team'' ''proj'' (Some [''default'']),
                            Agent_loop]\<rparr>)"
  using run_agent_spec [of "[]" "demo_env (Inr True)" None demo_state "[]" "[]" "''/''"]
        run_agent_spec [of "[''bad-spec'']" "demo_env (Inr True)" None demo_state "[]" "[]" "''/''"]
        run_agent_spec [of "[''a/b/c'']" "demo_env (Inr True)" None demo_state "[]" "[]" "''/''"]
        run_agent_spec [of "[''team'', ''team/proj'']" "demo_env (Inr True)" None demo_state
          "[]" "[]" "''/''"]
        run_agent_spec [of "[]" "demo_env (Inr True)" "Some [''default'']" demo_state
          "''team''" "''proj''" "''/''"]
  by (simp add: demo_state_def demo_env_def demo_agent_loop_def)

section \<open>The dispatcher \<^verbatim>\<open>_run\<close>\<close>

text \<open>
  Once the project is resolved and the project and entity names are settled, a call
  whose configuration is a dictionary assigns the reserved keys into that dictionary, in
  the store, and then looks the backend up.
\<close>

lemma launch_run_assigns:
  assumes "fetch_and_validate_project E uri experiment_name api runner_name version entry_point
             parameters = Inr p"
    and "setting_default wandb_project api ''project'' = Inr wp"
    and "setting_default wandb_entity api ''entity'' = Inr we"
  shows "launch_run E uri experiment_name wandb_project wandb_entity docker_image entry_point
           version parameters docker_args runner_name (PRef a) storage_dir synchronous api s =
     (let h3 = (store s)(a :=
                  AList.update (PROJECT_STORAGE_DIR E) storage_dir
                    (AList.update (PROJECT_DOCKER_ARGS E) docker_args
                      (AList.update (PROJECT_SYNCHRONOUS E) (PBool synchronous) (store s a))));
          h4 = (if truthy h3 docker_image
                then h3(a := AList.update ''DOCKER_IMAGE'' docker_image (h3 a)) else h3);
          p' = p\<lparr>docker_env := AList.update ''WANDB_ENTITY'' we
                                  (AList.update ''WANDB_PROJECT'' wp (docker_env p))\<rparr>
      in case load_backend E runner_name api of
           Some b \<Rightarrow>
             (backend_run b p' (PRef a) h4,
              s\<lparr>store := h4,
                trace := trace s @ [Load_backend runner_name, Backend_run p' (PRef a) h4]\<rparr>)
         | None \<Rightarrow>
             (Inl (ExecutionException (unavailable_backend_message runner_name (WANDB_RUNNERS E))),
              s\<lparr>store := h4, trace := trace s @ [Load_backend runner_name]\<rparr>))"
  using assms
  by (simp add: launch_run_def setitem_def emit_def Let_def split: option.splits)

text \<open>Any other call raises with the state as it was.\<close>

lemma launch_run_cases:
  "(\<exists>e. launch_run E uri experiment_name wandb_project wandb_entity docker_image entry_point
           version parameters docker_args runner_name runner_config storage_dir synchronous api s =
           (Inl e, s))
   \<or> (\<exists>p wp we a.
         fetch_and_validate_project E uri experiment_name api runner_name version entry_point
           parameters = Inr p
         \<and> setting_default wandb_project api ''project'' = Inr wp
         \<and> setting_default wandb_entity api ''entity'' = Inr we
         \<and> runner_config = PRef a)"
  by (cases runner_config) (auto simp: launch_run_def setitem_def Let_def split: sum.splits)

text \<open>
  C3. Whenever \<^verbatim>\<open>_run\<close> invokes a backend, the configuration it passes is the
  caller's configuration object, and in the store the backend sees, that configuration
  has the synchronous flag, the docker arguments and the storage directory at their
  reserved keys, whatever the caller had stored there; if a docker image was given (a
  value that is true in Python), the key \<open>DOCKER_IMAGE\<close> holds it. The three key
  constants come from \<^verbatim>\<open>.utils\<close>; they are taken to be distinct from each other and
  from \<open>DOCKER_IMAGE\<close>.
\<close>

theorem launch_run_reserved_keys:
  assumes "distinct [PROJECT_SYNCHRONOUS E, PROJECT_DOCKER_ARGS E, PROJECT_STORAGE_DIR E,
                     ''DOCKER_IMAGE'']"
    and "launch_run E uri experiment_name wandb_project wandb_entity docker_image entry_point
           version parameters docker_args runner_name runner_config storage_dir synchronous api s
         = (res, s')"
    and "Backend_run p c h \<in> set (trace s')"
    and "Backend_run p c h \<notin> set (trace s)"
  shows "c = runner_config
         \<and> (\<exists>a. c = PRef a
              \<and> map_of (h a) (PROJECT_SYNCHRONOUS E) = Some (PBool synchronous)
              \<and> map_of (h a) (PROJECT_DOCKER_ARGS E) = Some docker_args
              \<and> map_of (h a) (PROJECT_STORAGE_DIR E) = Some storage_dir
              \<and> (truthy h docker_image \<longrightarrow> map_of (h a) ''DOCKER_IMAGE'' = Some docker_image))"
proof -
  from launch_run_cases [of E uri experiment_name wandb_project wandb_entity docker_image
      entry_point version parameters docker_args runner_name runner_config storage_dir
      synchronous api s] assms(2,3,4)
  obtain p0 wp we a where pre:
    "fetch_and_validate_project E uri experiment_name api runner_name version entry_point
       parameters = Inr p0"
    "setting_default wandb_project api ''project'' = Inr wp"
    "setting_default wandb_entity api ''entity'' = Inr we"
    "runner_config = PRef a"
    by auto
  from launch_run_assigns [OF pre(1,2,3), of docker_image docker_args a storage_dir synchronous s]
    assms(2,3,4) pre(4)
  have ev: "c = PRef a"
    "h = (let h3 = (store s)(a :=
                  AList.update (PROJECT_STORAGE_DIR E) storage_dir
                    (AList.update (PROJECT_DOCKER_ARGS E) docker_args
                      (AList.update (PROJECT_SYNCHRONOUS E) (PBool synchronous) (store s a))))
          in if truthy h3 docker_image
             then h3(a := AList.update ''DOCKER_IMAGE'' docker_image (h3 a)) else h3)"
    by (auto simp: Let_def split: option.splits if_splits)
  from assms(1) have lookups:
    "map_of (h a) (PROJECT_SYNCHRONOUS E) = Some (PBool synchronous)"
    "map_of (h a) (PROJECT_DOCKER_ARGS E) = Some docker_args"
    "map_of (h a) (PROJECT_STORAGE_DIR E) = Some storage_dir"
    by (auto simp: ev(2) Let_def update_conv')
  have image: "truthy h docker_image \<longrightarrow> map_of (h a) ''DOCKER_IMAGE'' = Some docker_image"
    by (auto simp: ev(2) Let_def update_conv')
  from ev(1) pre(4) lookups image show ?thesis by simp
qed

text \<open>A dispatch to the example backend, evaluated.\<close>

lemma demo_launch_run:
  "launch_run (demo_env w) ''proj'' PNone PNone PNone (PStr ''img:1'') PNone PNone PNone d
     ''local'' (PRef 0) (PStr ''/tmp'') sync (Some demo_api) demo_state =
   (Inr (demo_run w),
    demo_state\<lparr>store := demo_store(0 :=
        [(''SYNCHRONOUS'', PBool sync), (''epochs'', PStr ''3''), (''DOCKER_ARGS'', d),
         (''STORAGE_DIR'', PStr ''/tmp''), (''DOCKER_IMAGE'', PStr ''img:1'')]),
      trace := [Load_backend ''local'',
        Backend_run
          \<lparr>project_uri = ''proj'',
           docker_env = [(''WANDB_PROJECT'', PStr ''default-project''),
                         (''WANDB_ENTITY'', PStr ''default-entity'')]\<rparr>
          (PRef 0)
          (demo_store(0 :=
            [(''SYNCHRONOUS'', PBool sync), (''epochs'', PStr ''3''), (''DOCKER_ARGS'', d),
             (''STORAGE_DIR'', PStr ''/tmp''), (''DOCKER_IMAGE'', PStr ''img:1'')]))]\<rparr>)"
  by (simp add: launch_run_def setting_default_def setitem_def emit_def truthy_def Let_def
      demo_env_def demo_fetch_def demo_api_def demo_settings_def demo_load_backend_def
      demo_backend_def demo_backend_run_def demo_state_def demo_store_def)

theorem launch_run_reserved_keys_witness:
  "distinct [PROJECT_SYNCHRONOUS (demo_env (Inr True)), PROJECT_DOCKER_ARGS (demo_env (Inr True)),
             PROJECT_STORAGE_DIR (demo_env (Inr True)), ''DOCKER_IMAGE'']
   \<and> map_of (demo_store 0) ''SYNCHRONOUS'' = Some (PBool False)
   \<and> (\<exists>p h. Backend_run p (PRef 0) h \<in> set (trace (snd
          (launch_run (demo_env (Inr True)) ''proj'' PNone PNone PNone (PStr ''img:1'') PNone
             PNone PNone (PRef 1) ''local'' (PRef 0) (PStr ''/tmp'') True (Some demo_api)
             demo_state)))
        \<and> map_of (h 0) ''SYNCHRONOUS'' = Some (PBool True)
        \<and> map_of (h 0) ''DOCKER_ARGS'' = Some (PRef 1)
        \<and> map_of (h 0) ''STORAGE_DIR'' = Some (PStr ''/tmp'')
        \<and> map_of (h 0) ''DOCKER_IMAGE'' = Some (PStr ''img:1''))"
proof -
  let ?E = "demo_env (Inr True)"
  let ?h = "demo_store(0 :=
            [(''SYNCHRONOUS'', PBool True), (''epochs'', PStr ''3''), (''DOCKER_ARGS'', PRef 1),
             (''STORAGE_DIR'', PStr ''/tmp''), (''DOCKER_IMAGE'', PStr ''img:1'')])"
  let ?p = "\<lparr>project_uri = ''proj'',
           docker_env = [(''WANDB_PROJECT'', PStr ''default-project''),
                         (''WANDB_ENTITY'', PStr ''default-entity'')]\<rparr>"
  have d: "distinct [PROJECT_SYNCHRONOUS ?E, PROJECT_DOCKER_ARGS ?E, PROJECT_STORAGE_DIR ?E,
                     ''DOCKER_IMAGE'']"
    by (simp add: demo_env_def)
  have m: "Backend_run ?p (PRef 0) ?h \<in> set (trace (snd
          (launch_run ?E ''proj'' PNone PNone PNone (PStr ''img:1'') PNone
             PNone PNone (PRef 1) ''local'' (PRef 0) (PStr ''/tmp'') True (Some demo_api)
             demo_state)))"
    unfolding demo_launch_run by simp
  have n: "Backend_run ?p (PRef 0) ?h \<notin> set (trace demo_state)"
    by (simp add: demo_state_def)
  have t: "truthy ?h (PStr ''img:1'')" by (simp add: truthy_def)
  from launch_run_reserved_keys [OF d surjective_pairing m n] t
  have "map_of (?h 0) ''SYNCHRONOUS'' = Some (PBool True)
        \<and> map_of (?h 0) ''DOCKER_ARGS'' = Some (PRef 1)
        \<and> map_of (?h 0) ''STORAGE_DIR'' = Some (PStr ''/tmp'')
        \<and> map_of (?h 0) ''DOCKER_IMAGE'' = Some (PStr ''img:1'')"
    by (simp add: demo_env_def)
  with d m show ?thesis
    by (intro conjI exI [of _ ?p] exI [of _ ?h]) (simp_all add: demo_store_def)
qed

text \<open>
  C2, as stated, has every call with an unresolvable runner name fail with the execution
  error that names the runner and the known runners. The lookup is the last step before
  the dispatch: a call whose project resolution fails raises the resolver's error, and
  the loader is never asked.
\<close>

theorem launch_run_unresolved_counterexample:
  "load_backend (demo_env (Inr True)) ''ngc'' (Some demo_api) = None
   \<and> fst (launch_run (demo_env (Inr True)) ''missing'' PNone PNone PNone PNone PNone PNone PNone
            (PRef 1) ''ngc'' (PRef 0) PNone True (Some demo_api) demo_state)
       = Inl (CollaboratorError ''project not found'')
   \<and> fst (launch_run (demo_env (Inr True)) ''missing'' PNone PNone PNone PNone PNone PNone PNone
            (PRef 1) ''ngc'' (PRef 0) PNone True (Some demo_api) demo_state)
       \<noteq> Inl (ExecutionException (''Unavailable backend ngc, available backends: local''))"
  by (simp add: launch_run_def demo_env_def demo_fetch_def demo_load_backend_def)

text \<open>
  C2, amended. For every call to \<^verbatim>\<open>_run\<close> with a runner name for which the loader
  resolves no backend: no backend dispatch occurs and the call raises; and if the project
  was resolved, the project and entity names were settled and the configuration is a
  dictionary, the exception is the ExecutionException whose message is
  \<open>Unavailable backend\<close>, the runner name, \<open>available backends:\<close> and the keys of
  \<^verbatim>\<open>WANDB_RUNNERS\<close> joined by commas.
\<close>

theorem launch_run_unresolved:
  assumes "load_backend E runner_name api = None"
  shows "(fetch_and_validate_project E uri experiment_name api runner_name version entry_point
            parameters = Inr p
          \<and> setting_default wandb_project api ''project'' = Inr wp
          \<and> setting_default wandb_entity api ''entity'' = Inr we
          \<and> runner_config = PRef a
          \<longrightarrow> fst (launch_run E uri experiment_name wandb_project wandb_entity docker_image
                     entry_point version parameters docker_args runner_name runner_config
                     storage_dir synchronous api s)
              = Inl (ExecutionException
                  (''Unavailable backend '' @ runner_name @ '', available backends: ''
                     @ join '', '' (WANDB_RUNNERS E))))
         \<and> (\<exists>e. fst (launch_run E uri experiment_name wandb_project wandb_entity docker_image
                     entry_point version parameters docker_args runner_name runner_config
                     storage_dir synchronous api s) = Inl e)
         \<and> (\<forall>p' c h. Backend_run p' c h \<in> set (trace (snd
                (launch_run E uri experiment_name wandb_project wandb_entity docker_image
                     entry_point version parameters docker_args runner_name runner_config
                     storage_dir synchronous api s)))
              \<longrightarrow> Backend_run p' c h \<in> set (trace s))"
proof -
  let ?r = "launch_run E uri experiment_name wandb_project wandb_entity docker_image
              entry_point version parameters docker_args runner_name runner_config
              storage_dir synchronous api s"
  have reached: "fst ?r = Inl (ExecutionException
                  (''Unavailable backend '' @ runner_name @ '', available backends: ''
                     @ join '', '' (WANDB_RUNNERS E)))
                 \<and> trace (snd ?r) = trace s @ [Load_backend runner_name]"
    if "fetch_and_validate_project E uri experiment_name api runner_name version entry_point
            parameters = Inr p0"
       "setting_default wandb_project api ''project'' = Inr wp0"
       "setting_default wandb_entity api ''entity'' = Inr we0"
       "runner_config = PRef a0" for p0 wp0 we0 a0
    using launch_run_assigns [OF that(1,2,3), of docker_image docker_args a0 storage_dir
        synchronous s] that(4) assms
    by (simp add: Let_def unavailable_backend_message_def)
  from launch_run_cases [of E uri experiment_name wandb_project wandb_entity docker_image
      entry_point version parameters docker_args runner_name runner_config storage_dir
      synchronous api s]
  have rest: "(\<exists>e. fst ?r = Inl e)
      \<and> (\<forall>p' c h. Backend_run p' c h \<in> set (trace (snd ?r)) \<longrightarrow> Backend_run p' c h \<in> set (trace s))"
  proof
    assume "\<exists>e. ?r = (Inl e, s)"
    then show ?thesis by auto
  next
    assume "\<exists>p wp we a.
         fetch_and_validate_project E uri experiment_name api runner_name version entry_point
           parameters = Inr p
         \<and> setting_default wandb_project api ''project'' = Inr wp
         \<and> setting_default wandb_entity api ''entity'' = Inr we
         \<and> runner_config = PRef a"
    then obtain p0 wp0 we0 a0 where
      "fetch_and_validate_project E uri experiment_name api runner_name version entry_point
            parameters = Inr p0"
       "setting_default wandb_project api ''project'' = Inr wp0"
       "setting_default wandb_entity api ''entity'' = Inr we0"
       "runner_config = PRef a0" by blast
    from reached [OF this] show ?thesis by simp
  qed
  from reached rest show ?thesis by blast
qed

theorem launch_run_unresolved_witness:
  "load_backend (demo_env (Inr True)) ''ngc'' (Some demo_api) = None
   \<and> fst (launch_run (demo_env (Inr True)) ''proj'' PNone PNone PNone PNone PNone PNone PNone
            (PRef 1) ''ngc'' (PRef 0) PNone True (Some demo_api) demo_state)
       = Inl (ExecutionException ''Unavailable backend ngc, available backends: local'')"
proof -
  have n: "load_backend (demo_env (Inr True)) ''ngc'' (Some demo_api) = None"
    by (simp add: demo_env_def demo_load_backend_def)
  have pre: "fetch_and_validate_project (demo_env (Inr True)) ''proj'' PNone (Some demo_api) ''ngc''
               PNone PNone PNone = Inr \<lparr>project_uri = ''proj'', docker_env = []\<rparr>
          \<and> setting_default PNone (Some demo_api) ''project'' = Inr (PStr ''default-project'')
          \<and> setting_default PNone (Some demo_api) ''entity'' = Inr (PStr ''default-entity'')
          \<and> PRef 0 = PRef 0"
    by (simp add: demo_env_def demo_fetch_def setting_default_def demo_api_def demo_settings_def)
  from launch_run_unresolved [OF n, where uri = "''proj''" and experiment_name = PNone
      and version = PNone and entry_point = PNone and parameters = PNone
      and p = "\<lparr>project_uri = ''proj'', docker_env = []\<rparr>"
      and wandb_project = PNone and wp = "PStr ''default-project''"
      and wandb_entity = PNone and we = "PStr ''default-entity''"
      and runner_config = "PRef 0" and a = 0 and docker_image = PNone
      and docker_args = "PRef 1" and storage_dir = PNone and synchronous = True
      and s = demo_state] pre
  have "fst (launch_run (demo_env (Inr True)) ''proj'' PNone PNone PNone PNone PNone PNone PNone
            (PRef 1) ''ngc'' (PRef 0) PNone True (Some demo_api) demo_state)
       = Inl (ExecutionException
                  (''Unavailable backend '' @ ''ngc'' @ '', available backends: ''
                     @ join '', '' (WANDB_RUNNERS (demo_env (Inr True)))))"
    by blast
  with n show ?thesis by (simp add: demo_env_def)
qed

text \<open>
  C8, as stated, has \<^verbatim>\<open>_run\<close> copy the caller's options and leave the caller's mapping
  unchanged. There is no copy: the assignments of lines 71--75 go into the object the
  caller passed, which holds the reserved keys after the call.
\<close>

theorem launch_run_copy_counterexample:
  "map_of (store demo_state 0) ''STORAGE_DIR'' = None
   \<and> map_of (store (snd
        (launch_run (demo_env (Inr True)) ''proj'' PNone PNone PNone (PStr ''img:1'') PNone PNone
           PNone (PRef 1) ''local'' (PRef 0) (PStr ''/tmp'') True (Some demo_api) demo_state)) 0)
        ''STORAGE_DIR'' = Some (PStr ''/tmp'')
   \<and> store (snd
        (launch_run (demo_env (Inr True)) ''proj'' PNone PNone PNone (PStr ''img:1'') PNone PNone
           PNone (PRef 1) ''local'' (PRef 0) (PStr ''/tmp'') True (Some demo_api) demo_state)) 0
       \<noteq> store demo_state 0"
  unfolding demo_launch_run by (simp add: demo_state_def demo_store_def)

text \<open>
  C8, amended. \<^verbatim>\<open>_run\<close> does not copy the configuration: once the project is resolved
  and the names are settled, it assigns the reserved keys into the caller's own
  dictionary. After the call that dictionary holds the synchronous flag, the docker
  arguments and the storage directory at the reserved keys, its other keys are as they
  were, every other object of the store is unchanged, and a backend that is invoked
  receives this same dictionary, in the state the caller sees afterwards.
\<close>

theorem launch_run_config_in_place:
  assumes "distinct [PROJECT_SYNCHRONOUS E, PROJECT_DOCKER_ARGS E, PROJECT_STORAGE_DIR E,
                     ''DOCKER_IMAGE'']"
    and "fetch_and_validate_project E uri experiment_name api runner_name version entry_point
           parameters = Inr p"
    and "setting_default wandb_project api ''project'' = Inr wp"
    and "setting_default wandb_entity api ''entity'' = Inr we"
    and "launch_run E uri experiment_name wandb_project wandb_entity docker_image entry_point
           version parameters docker_args runner_name (PRef a) storage_dir synchronous api s
         = (res, s')"
  shows "map_of (store s' a) (PROJECT_SYNCHRONOUS E) = Some (PBool synchronous)
         \<and> map_of (store s' a) (PROJECT_DOCKER_ARGS E) = Some docker_args
         \<and> map_of (store s' a) (PROJECT_STORAGE_DIR E) = Some storage_dir
         \<and> (\<forall>k. k \<notin> {PROJECT_SYNCHRONOUS E, PROJECT_DOCKER_ARGS E, PROJECT_STORAGE_DIR E,
                      ''DOCKER_IMAGE''}
                \<longrightarrow> map_of (store s' a) k = map_of (store s a) k)
         \<and> (\<forall>b. b \<noteq> a \<longrightarrow> store s' b = store s b)
         \<and> (\<forall>p' c h. Backend_run p' c h \<in> set (trace s') \<and> Backend_run p' c h \<notin> set (trace s)
                \<longrightarrow> c = PRef a \<and> h = store s')"
proof -
  let ?h3 = "(store s)(a :=
                  AList.update (PROJECT_STORAGE_DIR E) storage_dir
                    (AList.update (PROJECT_DOCKER_ARGS E) docker_args
                      (AList.update (PROJECT_SYNCHRONOUS E) (PBool synchronous) (store s a))))"
  let ?h4 = "if truthy ?h3 docker_image
             then ?h3(a := AList.update ''DOCKER_IMAGE'' docker_image (?h3 a)) else ?h3"
  from launch_run_assigns [OF assms(2,3,4), of docker_image docker_args a storage_dir
      synchronous s] assms(5)
  have st: "store s' = ?h4"
    by (auto simp: Let_def split: option.splits)
  from launch_run_assigns [OF assms(2,3,4), of docker_image docker_args a storage_dir
      synchronous s] assms(5)
  have ev: "\<forall>p' c h. Backend_run p' c h \<in> set (trace s') \<and> Backend_run p' c h \<notin> set (trace s)
                \<longrightarrow> c = PRef a \<and> h = ?h4"
    by (auto simp: Let_def split: option.splits)
  from assms(1) have keys:
    "map_of (?h4 a) (PROJECT_SYNCHRONOUS E) = Some (PBool synchronous)"
    "map_of (?h4 a) (PROJECT_DOCKER_ARGS E) = Some docker_args"
    "map_of (?h4 a) (PROJECT_STORAGE_DIR E) = Some storage_dir"
    by (auto simp: update_conv')
  have others: "\<forall>k. k \<notin> {PROJECT_SYNCHRONOUS E, PROJECT_DOCKER_ARGS E, PROJECT_STORAGE_DIR E,
                      ''DOCKER_IMAGE''}
                \<longrightarrow> map_of (?h4 a) k = map_of (store s a) k"
    by (auto simp: update_conv')
  have frame: "\<forall>b. b \<noteq> a \<longrightarrow> ?h4 b = store s b"
    by auto
  from keys others frame ev show ?thesis
    unfolding st by blast
qed

theorem launch_run_config_in_place_witness:
  "map_of (store demo_state 0) ''SYNCHRONOUS'' = Some (PBool False)
   \<and> map_of (store demo_state 0) ''STORAGE_DIR'' = None
   \<and> (let s' = snd (launch_run (demo_env (Inr True)) ''proj'' PNone PNone PNone (PStr ''img:1'')
                      PNone PNone PNone (PRef 1) ''local'' (PRef 0) (PStr ''/tmp'') True
                      (Some demo_api) demo_state)
      in map_of (store s' 0) ''SYNCHRONOUS'' = Some (PBool True)
         \<and> map_of (store s' 0) ''DOCKER_ARGS'' = Some (PRef 1)
         \<and> map_of (store s' 0) ''STORAGE_DIR'' = Some (PStr ''/tmp'')
         \<and> map_of (store s' 0) ''epochs'' = map_of (store demo_state 0) ''epochs''
         \<and> store s' 1 = store demo_state 1)"
proof -
  let ?E = "demo_env (Inr True)"
  have d: "distinct [PROJECT_SYNCHRONOUS ?E, PROJECT_DOCKER_ARGS ?E, PROJECT_STORAGE_DIR ?E,
                     ''DOCKER_IMAGE'']"
    by (simp add: demo_env_def)
  have f: "fetch_and_validate_project ?E ''proj'' PNone (Some demo_api) ''local''
               PNone PNone PNone = Inr \<lparr>project_uri = ''proj'', docker_env = []\<rparr>"
    by (simp add: demo_env_def demo_fetch_def)
  have wp: "setting_default PNone (Some demo_api) ''project'' = Inr (PStr ''default-project'')"
    by (simp add: setting_default_def demo_api_def demo_settings_def)
  have we: "setting_default PNone (Some demo_api) ''entity'' = Inr (PStr ''default-entity'')"
    by (simp add: setting_default_def demo_api_def demo_settings_def)
  have old: "map_of (store demo_state 0) ''SYNCHRONOUS'' = Some (PBool False)
             \<and> map_of (store demo_state 0) ''STORAGE_DIR'' = None"
    by (simp add: demo_state_def demo_store_def)
  from launch_run_config_in_place [OF d f wp we surjective_pairing,
      where docker_image = "PStr ''img:1''" and docker_args = "PRef 1" and a = 0
        and storage_dir = "PStr ''/tmp''" and synchronous = True and s = demo_state]
  have "(let s' = snd (launch_run ?E ''proj'' PNone PNone PNone (PStr ''img:1'')
                      PNone PNone PNone (PRef 1) ''local'' (PRef 0) (PStr ''/tmp'') True
                      (Some demo_api) demo_state)
      in map_of (store s' 0) ''SYNCHRONOUS'' = Some (PBool True)
         \<and> map_of (store s' 0) ''DOCKER_ARGS'' = Some (PRef 1)
         \<and> map_of (store s' 0) ''STORAGE_DIR'' = Some (PStr ''/tmp'')
         \<and> map_of (store s' 0) ''epochs'' = map_of (store demo_state 0) ''epochs''
         \<and> store s' 1 = store demo_state 1)"
    by (simp add: demo_env_def Let_def)
  with old show ?thesis by blast
qed

section \<open>The entry point \<^verbatim>\<open>run\<close>\<close>

lemma host_network_cases:
  "host_network E uri docker_args s = (Inl TypeError, s)
   \<or> (\<exists>s1. host_network E uri docker_args s = (Inr (), s1) \<and> trace s1 = trace s)"
  by (cases docker_args) (auto simp: host_network_def setitem_def)

lemma launch_run_Inr:
  assumes "launch_run E uri experiment_name wandb_project wandb_entity docker_image entry_point
             version parameters docker_args runner_name runner_config storage_dir synchronous api s
           = (Inr r, s')"
  shows "\<exists>b p c h. load_backend E runner_name api = Some b \<and> backend_run b p c h = Inr r
           \<and> Backend_run p c h \<in> set (trace s')"
proof -
  from launch_run_cases [of E uri experiment_name wandb_project wandb_entity docker_image
      entry_point version parameters docker_args runner_name runner_config storage_dir
      synchronous api s] assms
  obtain p0 wp we a where pre:
    "fetch_and_validate_project E uri experiment_name api runner_name version entry_point
       parameters = Inr p0"
    "setting_default wandb_project api ''project'' = Inr wp"
    "setting_default wandb_entity api ''entity'' = Inr we"
    "runner_config = PRef a"
    by auto
  let ?h3 = "(store s)(a :=
                  AList.update (PROJECT_STORAGE_DIR E) storage_dir
                    (AList.update (PROJECT_DOCKER_ARGS E) docker_args
                      (AList.update (PROJECT_SYNCHRONOUS E) (PBool synchronous) (store s a))))"
  let ?h4 = "if truthy ?h3 docker_image
             then ?h3(a := AList.update ''DOCKER_IMAGE'' docker_image (?h3 a)) else ?h3"
  let ?p = "p0\<lparr>docker_env := AList.update ''WANDB_ENTITY'' we
                                  (AList.update ''WANDB_PROJECT'' wp (docker_env p0))\<rparr>"
  from launch_run_assigns [OF pre(1,2,3), of docker_image docker_args a storage_dir synchronous s]
    assms pre(4)
  obtain b where b: "load_backend E runner_name api = Some b"
    by (cases "load_backend E runner_name api") (auto simp: Let_def)
  from launch_run_assigns [OF pre(1,2,3), of docker_image docker_args a storage_dir synchronous s]
    assms pre(4) b
  have "backend_run b ?p (PRef a) ?h4 = Inr r"
    and "trace s' = trace s @ [Load_backend runner_name, Backend_run ?p (PRef a) ?h4]"
    by (auto simp: Let_def)
  then have "backend_run b ?p (PRef a) ?h4 = Inr r \<and> Backend_run ?p (PRef a) ?h4 \<in> set (trace s')"
    by simp
  with b show ?thesis by blast
qed

text \<open>
  C10, as stated, has every call that leaves \<^verbatim>\<open>config\<close> at \<^verbatim>\<open>None\<close> raise a TypeError
  at the assignment of the synchronous flag. The project is resolved before that
  assignment: when the resolution fails, its error is what the call raises. And the call
  that leaves every optional parameter at its default has \<^verbatim>\<open>api\<close> at \<^verbatim>\<open>None\<close> too, and
  raises an AttributeError at \<^verbatim>\<open>api.settings\<close>, two lines earlier.
\<close>

theorem run_config_None_counterexample:
  "fst (run (demo_env (Inr True)) ''missing'' PNone PNone PNone (PRef 1) PNone ''local'' PNone
          PNone PNone PNone PNone True (Some demo_api) demo_state)
     = Inl (CollaboratorError ''project not found'')
   \<and> fst (run (demo_env (Inr True)) ''missing'' PNone PNone PNone (PRef 1) PNone ''local'' PNone
          PNone PNone PNone PNone True (Some demo_api) demo_state)
     \<noteq> Inl TypeError
   \<and> fst (run (demo_env (Inr True)) ''proj'' PNone PNone PNone PNone PNone ''local'' PNone
          PNone PNone PNone PNone True None demo_state)
     = Inl AttributeError"
  by (simp add: run_def host_network_def launch_run_def setting_default_def demo_env_def
      demo_fetch_def demo_is_local_def)

text \<open>
  C10, amended. Every call to \<^verbatim>\<open>run\<close> that leaves \<^verbatim>\<open>config\<close> at \<^verbatim>\<open>None\<close> raises, and
  it raises before any backend is looked up or invoked (it adds no event at all); when
  the network pre-step, the project resolution and the project and entity defaults
  succeed, the exception is the TypeError of the assignment of the synchronous flag in
  \<^verbatim>\<open>_run\<close>. \<^verbatim>\<open>run\<close> supplies no empty configuration.
\<close>

theorem run_config_None:
  "(\<exists>e. fst (run E uri entry_point version parameters docker_args experiment_name resource
              wandb_project wandb_entity docker_image PNone storage_dir synchronous api s)
          = Inl e)
   \<and> trace (snd (run E uri entry_point version parameters docker_args experiment_name resource
              wandb_project wandb_entity docker_image PNone storage_dir synchronous api s))
       = trace s
   \<and> (host_network E uri docker_args s = (Inr (), s1)
      \<and> fetch_and_validate_project E uri experiment_name api resource version entry_point
          parameters = Inr p
      \<and> setting_default wandb_project api ''project'' = Inr wp
      \<and> setting_default wandb_entity api ''entity'' = Inr we
      \<longrightarrow> run E uri entry_point version parameters docker_args experiment_name resource
              wandb_project wandb_entity docker_image PNone storage_dir synchronous api s
          = (Inl TypeError, s1))"
proof -
  have lr: "\<exists>e. launch_run E uri experiment_name wandb_project wandb_entity docker_image
              entry_point version parameters docker_args resource PNone storage_dir synchronous
              api t = (Inl e, t)" for t
    using launch_run_cases [of E uri experiment_name wandb_project wandb_entity docker_image
      entry_point version parameters docker_args resource PNone storage_dir synchronous api t]
    by simp
  have lr_type: "launch_run E uri experiment_name wandb_project wandb_entity docker_image
              entry_point version parameters docker_args resource PNone storage_dir synchronous
              api t = (Inl TypeError, t)"
    if "fetch_and_validate_project E uri experiment_name api resource version entry_point
          parameters = Inr p"
       "setting_default wandb_project api ''project'' = Inr wp"
       "setting_default wandb_entity api ''entity'' = Inr we" for t
    using that by (simp add: launch_run_def setitem_def Let_def)
  from host_network_cases [of E uri docker_args s]
  have a: "(\<exists>e. fst (run E uri entry_point version parameters docker_args experiment_name resource
              wandb_project wandb_entity docker_image PNone storage_dir synchronous api s)
          = Inl e)
      \<and> trace (snd (run E uri entry_point version parameters docker_args experiment_name resource
              wandb_project wandb_entity docker_image PNone storage_dir synchronous api s))
       = trace s"
  proof
    assume "host_network E uri docker_args s = (Inl TypeError, s)"
    then show ?thesis by (simp add: run_def)
  next
    assume "\<exists>s1. host_network E uri docker_args s = (Inr (), s1) \<and> trace s1 = trace s"
    then obtain t where t: "host_network E uri docker_args s = (Inr (), t)" "trace t = trace s"
      by blast
    from lr [of t] obtain e where "launch_run E uri experiment_name wandb_project wandb_entity
              docker_image entry_point version parameters docker_args resource PNone storage_dir
              synchronous api t = (Inl e, t)" by blast
    with t show ?thesis by (simp add: run_def)
  qed
  have b: "run E uri entry_point version parameters docker_args experiment_name resource
              wandb_project wandb_entity docker_image PNone storage_dir synchronous api s
          = (Inl TypeError, s1)"
    if "host_network E uri docker_args s = (Inr (), s1)"
       "fetch_and_validate_project E uri experiment_name api resource version entry_point
          parameters = Inr p"
       "setting_default wandb_project api ''project'' = Inr wp"
       "setting_default wandb_entity api ''entity'' = Inr we"
    using that(1) lr_type [OF that(2,3,4), of s1] by (simp add: run_def)
  from a b show ?thesis by blast
qed

theorem run_config_None_witness:
  "run (demo_env (Inr True)) ''http://localhost:8080/team/proj'' PNone PNone PNone (PRef 1) PNone
     ''local'' PNone PNone PNone PNone PNone True (Some demo_api) demo_state
   = (Inl TypeError, demo_state\<lparr>store := demo_store(1 := [(''network'', PStr ''host'')])\<rparr>)"
proof -
  let ?E = "demo_env (Inr True)"
  let ?s1 = "demo_state\<lparr>store := demo_store(1 := [(''network'', PStr ''host'')])\<rparr>"
  have h: "host_network ?E ''http://localhost:8080/team/proj'' (PRef 1) demo_state = (Inr (), ?s1)"
    by (simp add: host_network_def setitem_def demo_env_def demo_is_local_def demo_state_def
        demo_store_def)
  have f: "fetch_and_validate_project ?E ''http://localhost:8080/team/proj'' PNone (Some demo_api)
             ''local'' PNone PNone PNone
           = Inr \<lparr>project_uri = ''http://localhost:8080/team/proj'', docker_env = []\<rparr>"
    by (simp add: demo_env_def demo_fetch_def)
  have wp: "setting_default PNone (Some demo_api) ''project'' = Inr (PStr ''default-project'')"
    by (simp add: setting_default_def demo_api_def demo_settings_def)
  have we: "setting_default PNone (Some demo_api) ''entity'' = Inr (PStr ''default-entity'')"
    by (simp add: setting_default_def demo_api_def demo_settings_def)
  from run_config_None [where E = ?E and uri = "''http://localhost:8080/team/proj''"
      and docker_args = "PRef 1" and s = demo_state and ?s1.0 = ?s1 and api = "Some demo_api"
      and experiment_name = PNone and resource = "''local''" and version = PNone
      and entry_point = PNone and parameters = PNone and wandb_project = PNone
      and wandb_entity = PNone and synchronous = True and storage_dir = PNone
      and docker_image = PNone] h f wp we
  show ?thesis by blast
qed

text \<open>The example source \<open>proj\<close> is not a local address.\<close>

lemma demo_host_network_remote:
  "host_network (demo_env w) ''proj'' docker_args demo_state = (Inr (), demo_state)"
  by (simp add: host_network_def demo_env_def demo_is_local_def)

text \<open>
  C5, as stated, has \<^verbatim>\<open>run\<close> return the Submitted Run of the dispatch whatever
  \<^verbatim>\<open>synchronous\<close> is. With \<^verbatim>\<open>synchronous\<close> true and a run whose \<^verbatim>\<open>wait()\<close> returns
  false, \<^verbatim>\<open>run\<close> raises and returns nothing.
\<close>

theorem run_failed_wait_counterexample:
  "fst (launch_run (demo_env (Inr False)) ''proj'' PNone PNone PNone (PStr ''img:1'') PNone PNone
          PNone (PRef 1) ''local'' (PRef 0) (PStr ''/tmp'') True (Some demo_api) demo_state)
     = Inr (demo_run (Inr False))
   \<and> fst (run (demo_env (Inr False)) ''proj'' PNone PNone PNone (PRef 1) PNone ''local'' PNone
          PNone (PStr ''img:1'') (PRef 0) (PStr ''/tmp'') True (Some demo_api) demo_state)
     = Inl (ExecutionException ''Submitted run failed'')
   \<and> fst (run (demo_env (Inr False)) ''proj'' PNone PNone PNone (PRef 1) PNone ''local'' PNone
          PNone (PStr ''img:1'') (PRef 0) (PStr ''/tmp'') True (Some demo_api) demo_state)
     \<noteq> Inr (demo_run (Inr False))"
  by (simp add: run_def demo_host_network_remote demo_launch_run wait_for_def demo_run_def)

text \<open>
  C5, amended. Whatever \<^verbatim>\<open>run\<close> returns is the Submitted Run that the backend dispatch
  produced. When the dispatch has produced a run: with \<^verbatim>\<open>synchronous\<close> false, \<^verbatim>\<open>run\<close>
  returns it without waiting; with \<^verbatim>\<open>synchronous\<close> true, \<^verbatim>\<open>run\<close> waits and returns it if
  \<^verbatim>\<open>wait()\<close> returns true, raises ExecutionException \<open>Submitted run failed\<close> if
  \<^verbatim>\<open>wait()\<close> returns false, and raises what \<^verbatim>\<open>wait()\<close> raises otherwise.
\<close>

theorem run_returns_dispatched_run:
  "(run E uri entry_point version parameters docker_args experiment_name resource
      wandb_project wandb_entity docker_image config storage_dir synchronous api s = (Inr r, s')
    \<longrightarrow> (\<exists>b p c h. load_backend E resource api = Some b \<and> backend_run b p c h = Inr r
                    \<and> Backend_run p c h \<in> set (trace s'))
        \<and> (synchronous \<longrightarrow> wait_result r = Inr True))
   \<and> (host_network E uri docker_args s = (Inr (), s1)
      \<and> launch_run E uri experiment_name wandb_project wandb_entity docker_image entry_point
          version parameters docker_args resource config storage_dir synchronous api s1
        = (Inr r, s2)
      \<longrightarrow> (\<not> synchronous \<longrightarrow>
             run E uri entry_point version parameters docker_args experiment_name resource
               wandb_project wandb_entity docker_image config storage_dir synchronous api s
             = (Inr r, s2))
        \<and> (synchronous \<and> wait_result r = Inr True \<longrightarrow>
             run E uri entry_point version parameters docker_args experiment_name resource
               wandb_project wandb_entity docker_image config storage_dir synchronous api s
             = (Inr r, s2\<lparr>trace := trace s2 @ [Wait_called (run_id r),
                                   Logger_info ''=== Submitted run succeeded ==='']\<rparr>))
        \<and> (synchronous \<and> wait_result r = Inr False \<longrightarrow>
             fst (run E uri entry_point version parameters docker_args experiment_name resource
               wandb_project wandb_entity docker_image config storage_dir synchronous api s)
             = Inl (ExecutionException ''Submitted run failed''))
        \<and> (synchronous \<and> wait_result r = Inl e \<longrightarrow>
             fst (run E uri entry_point version parameters docker_args experiment_name resource
               wandb_project wandb_entity docker_image config storage_dir synchronous api s)
             = Inl e))"
proof -
  let ?run = "run E uri entry_point version parameters docker_args experiment_name resource
      wandb_project wandb_entity docker_image config storage_dir synchronous api s"
  have returned: "(\<exists>b p c h. load_backend E resource api = Some b \<and> backend_run b p c h = Inr r
                    \<and> Backend_run p c h \<in> set (trace s'))
        \<and> (synchronous \<longrightarrow> wait_result r = Inr True)"
    if ret: "?run = (Inr r, s')"
  proof -
    from ret obtain t1 where t1: "host_network E uri docker_args s = (Inr (), t1)"
      by (auto simp: run_def split: prod.splits sum.splits)
    from ret t1 obtain r0 t2 where t2:
      "launch_run E uri experiment_name wandb_project wandb_entity docker_image entry_point
          version parameters docker_args resource config storage_dir synchronous api t1
        = (Inr r0, t2)"
      by (auto simp: run_def split: prod.splits sum.splits)
    from launch_run_Inr [OF t2] obtain b p c h where b:
      "load_backend E resource api = Some b" "backend_run b p c h = Inr r0"
      "Backend_run p c h \<in> set (trace t2)" by blast
    from ret t1 t2 have same: "r0 = r"
      by (auto simp: run_def split: prod.splits sum.splits if_splits)
    from ret t1 t2 have tr: "set (trace t2) \<subseteq> set (trace s')"
      by (auto simp: run_def wait_for_def emit_def Let_def
          split: prod.splits sum.splits if_splits bool.splits)
    from ret t1 t2 have w: "synchronous \<longrightarrow> wait_result r = Inr True"
      by (auto simp: run_def wait_for_def emit_def Let_def
          split: prod.splits sum.splits if_splits bool.splits)
    from b same tr w show ?thesis by blast
  qed
  have forth: "(\<not> synchronous \<longrightarrow> ?run = (Inr r, s2))
        \<and> (synchronous \<and> wait_result r = Inr True \<longrightarrow>
             ?run = (Inr r, s2\<lparr>trace := trace s2 @ [Wait_called (run_id r),
                                   Logger_info ''=== Submitted run succeeded ==='']\<rparr>))
        \<and> (synchronous \<and> wait_result r = Inr False \<longrightarrow>
             fst ?run = Inl (ExecutionException ''Submitted run failed''))
        \<and> (synchronous \<and> wait_result r = Inl e \<longrightarrow> fst ?run = Inl e)"
    if "host_network E uri docker_args s = (Inr (), s1)"
       "launch_run E uri experiment_name wandb_project wandb_entity docker_image entry_point
          version parameters docker_args resource config storage_dir synchronous api s1
        = (Inr r, s2)"
    using that by (cases synchronous) (simp_all add: run_def wait_for_def emit_def Let_def)
  from returned forth show ?thesis by blast
qed

theorem run_returns_dispatched_run_witness:
  "run (demo_env (Inr False)) ''proj'' PNone PNone PNone (PRef 1) PNone ''local'' PNone
     PNone (PStr ''img:1'') (PRef 0) (PStr ''/tmp'') False (Some demo_api) demo_state
   = (Inr (demo_run (Inr False)),
      snd (launch_run (demo_env (Inr False)) ''proj'' PNone PNone PNone (PStr ''img:1'') PNone
             PNone PNone (PRef 1) ''local'' (PRef 0) (PStr ''/tmp'') False (Some demo_api)
             demo_state))
   \<and> fst (run (demo_env (Inr True)) ''proj'' PNone PNone PNone (PRef 1) PNone ''local'' PNone
           PNone (PStr ''img:1'') (PRef 0) (PStr ''/tmp'') True (Some demo_api) demo_state)
     = Inr (demo_run (Inr True))
   \<and> fst (run (demo_env (Inr False)) ''proj'' PNone PNone PNone (PRef 1) PNone ''local'' PNone
           PNone (PStr ''img:1'') (PRef 0) (PStr ''/tmp'') True (Some demo_api) demo_state)
     = Inl (ExecutionException ''Submitted run failed'')
   \<and> fst (run (demo_env (Inl KeyboardInterrupt)) ''proj'' PNone PNone PNone (PRef 1) PNone
           ''local'' PNone PNone (PStr ''img:1'') (PRef 0) (PStr ''/tmp'') True (Some demo_api)
           demo_state)
     = Inl KeyboardInterrupt"
proof -
  have l: "launch_run (demo_env w) ''proj'' PNone PNone PNone (PStr ''img:1'') PNone
             PNone PNone (PRef 1) ''local'' (PRef 0) (PStr ''/tmp'') sync (Some demo_api)
             demo_state
           = (Inr (demo_run w),
              snd (launch_run (demo_env w) ''proj'' PNone PNone PNone (PStr ''img:1'') PNone
                     PNone PNone (PRef 1) ''local'' (PRef 0) (PStr ''/tmp'') sync
                     (Some demo_api) demo_state))" for w sync
    unfolding demo_launch_run by simp
  note h = demo_host_network_remote
  from run_returns_dispatched_run [where E = "demo_env (Inr False)" and synchronous = False
      and ?s1.0 = demo_state and r = "demo_run (Inr False)"] h [of "Inr False" "PRef 1"]
    l [of "Inr False" False]
  have a: "run (demo_env (Inr False)) ''proj'' PNone PNone PNone (PRef 1) PNone ''local'' PNone
     PNone (PStr ''img:1'') (PRef 0) (PStr ''/tmp'') False (Some demo_api) demo_state
   = (Inr (demo_run (Inr False)),
      snd (launch_run (demo_env (Inr False)) ''proj'' PNone PNone PNone (PStr ''img:1'') PNone
             PNone PNone (PRef 1) ''local'' (PRef 0) (PStr ''/tmp'') False (Some demo_api)
             demo_state))"
    by blast
  have wt: "wait_result (demo_run w) = w" for w by (simp add: demo_run_def)
  from run_returns_dispatched_run [where E = "demo_env (Inr True)" and synchronous = True
      and ?s1.0 = demo_state and r = "demo_run (Inr True)"] h [of "Inr True" "PRef 1"]
    l [of "Inr True" True] wt [of "Inr True"]
  have b: "fst (run (demo_env (Inr True)) ''proj'' PNone PNone PNone (PRef 1) PNone ''local'' PNone
           PNone (PStr ''img:1'') (PRef 0) (PStr ''/tmp'') True (Some demo_api) demo_state)
     = Inr (demo_run (Inr True))"
    by (metis fst_conv)
  from run_returns_dispatched_run [where E = "demo_env (Inr False)" and synchronous = True
      and ?s1.0 = demo_state and r = "demo_run (Inr False)"] h [of "Inr False" "PRef 1"]
    l [of "Inr False" True] wt [of "Inr False"]
  have c: "fst (run (demo_env (Inr False)) ''proj'' PNone PNone PNone (PRef 1) PNone ''local'' PNone
           PNone (PStr ''img:1'') (PRef 0) (PStr ''/tmp'') True (Some demo_api) demo_state)
     = Inl (ExecutionException ''Submitted run failed'')"
    by blast
  from run_returns_dispatched_run [where E = "demo_env (Inl KeyboardInterrupt)"
      and synchronous = True and ?s1.0 = demo_state and r = "demo_run (Inl KeyboardInterrupt)"
      and e = KeyboardInterrupt]
    h [of "Inl KeyboardInterrupt" "PRef 1"]
    l [of "Inl KeyboardInterrupt" True] wt [of "Inl KeyboardInterrupt"]
  have d: "fst (run (demo_env (Inl KeyboardInterrupt)) ''proj'' PNone PNone PNone (PRef 1) PNone
           ''local'' PNone PNone (PStr ''img:1'') (PRef 0) (PStr ''/tmp'') True (Some demo_api)
           demo_state)
     = Inl KeyboardInterrupt"
    by blast
  from a b c d show ?thesis by blast
qed

text \<open>
  C6. For a project source recognised as a local address, \<^verbatim>\<open>run\<close> is to set the
  \<open>network\<close> key of the docker arguments to \<open>host\<close> before dispatching. With
  \<^verbatim>\<open>docker_args\<close> left at its default \<^verbatim>\<open>None\<close>, the assignment of line 160 raises a
  TypeError instead, and \<^verbatim>\<open>run\<close> ends there: nothing is set and nothing is dispatched.
\<close>

theorem run_local_uri_default_docker_args:
  "is_wandb_local_uri E uri \<Longrightarrow>
   run E uri entry_point version parameters PNone experiment_name resource wandb_project
     wandb_entity docker_image config storage_dir synchronous api s
   = (Inl TypeError, s)"
  by (simp add: run_def host_network_def setitem_def)

theorem run_local_uri_default_docker_args_witness:
  "is_wandb_local_uri (demo_env (Inr True)) ''http://localhost:8080/team/proj''
   \<and> run (demo_env (Inr True)) ''http://localhost:8080/team/proj'' PNone PNone PNone PNone PNone
       ''local'' PNone PNone PNone (PRef 0) PNone True (Some demo_api) demo_state
     = (Inl TypeError, demo_state)"
proof -
  have l: "is_wandb_local_uri (demo_env (Inr True)) ''http://localhost:8080/team/proj''"
    by (simp add: demo_env_def demo_is_local_def)
  from l run_local_uri_default_docker_args [OF l] show ?thesis by blast
qed

end
